theory Spec2Isabelle
  imports Main "HOL-Library.Word" "HOL-Library.Char_ord" "HOL-Library.List_Lexorder"
begin

section \<open>Shared Go notions\<close>

text \<open>
  A Go \<^verbatim>\<open>time.Time\<close> is a struct of three words (wall clock, extended seconds or
  monotonic reading, location pointer). The operator \<^verbatim>\<open>!=\<close> on two of them compares the
  three fields, which is equality of the record below.
\<close>

record Time =
  wall :: "64 word"
  ext :: "64 word"
  loc :: "nat option"

text \<open>
  Run-time panics of the Go code, as values; \<open>LoopsForever\<close> stands for a call that
  does not return.
\<close>

datatype panic =
  SliceBoundsOutOfRange
  | IndexOutOfRange
  | NilPointerDereference
  | ReflectPanic
  | InterfaceConversion
  | UnexpectedType
  | LoopsForever

text \<open>Sequencing of calls that may panic: the first panic is the result.\<close>

definition and_then :: "panic + 'a \<Rightarrow> ('a \<Rightarrow> panic + 'b) \<Rightarrow> panic + 'b" where
  "and_then r f = (case r of Inl e \<Rightarrow> Inl e | Inr x \<Rightarrow> f x)"

text \<open>The lines written with \<^verbatim>\<open>log.Printf\<close>, one constructor for each format string.\<close>

datatype log_msg =
  FailedToOpenConfig string string
  | FailedToProcessConfig string string
  | NewConfigurationLoaded
  | NotEnoughPlotSpace string "64 word"
  | NotEnoughTargetSpace string "64 word"
  | FailedToStartPlotting string
  | PlottingExitWithError string

section \<open>Configuration store\<close>

record Config =
  TargetDirectory :: "string list"
  TempDirectory :: "string list"
  NumberOfPlots :: int
  ConfigFingerprint :: string

text \<open>
  \<^verbatim>\<open>PlotConfig\<close>: the pointer \<^verbatim>\<open>CurrentConfig\<close> is \<open>None\<close> while nil. The mutex only
  guards the single pointer assignment, which is one step of the model.
\<close>

record PlotConfig =
  ConfigPath :: string
  CurrentConfig :: "Config option"
  LastMod :: Time

text \<open>
  What \<^verbatim>\<open>ProcessConfig\<close> asks of the operating system and of the JSON decoder, each with
  Go's \<^verbatim>\<open>(value, err)\<close> result as a sum (\<open>Inl\<close> the error text): \<^verbatim>\<open>os.Lstat\<close> gives the
  modification time, \<^verbatim>\<open>os.Open\<close> the file's bytes, \<^verbatim>\<open>Decode\<close> the parsed document.
\<close>

record config_env =
  Lstat :: "string \<Rightarrow> string + Time"
  Open :: "string \<Rightarrow> string + string"
  Decode :: "string \<Rightarrow> string + Config"

text \<open>The observable steps of one poll, in the order the code performs them.\<close>

datatype config_event =
  CallLstat string
  | CallOpen string
  | CallDecode
  | CallClose
  | Log log_msg

definition ProcessConfig :: "config_env \<Rightarrow> PlotConfig \<Rightarrow> PlotConfig \<times> config_event list" where
  "ProcessConfig env pc =
     (case Lstat env (ConfigPath pc) of
        Inl err \<Rightarrow> (pc, [CallLstat (ConfigPath pc), Log (FailedToOpenConfig (ConfigPath pc) err)])
      | Inr mt \<Rightarrow>
          if LastMod pc \<noteq> mt then
            (case Open env (ConfigPath pc) of
               Inl err \<Rightarrow>
                 (pc\<lparr>LastMod := mt\<rparr>,
                  [CallLstat (ConfigPath pc), CallOpen (ConfigPath pc),
                   Log (FailedToOpenConfig (ConfigPath pc) err)])
             | Inr f \<Rightarrow>
                 (case Decode env f of
                    Inl err \<Rightarrow>
                      (pc\<lparr>LastMod := mt\<rparr>,
                       [CallLstat (ConfigPath pc), CallOpen (ConfigPath pc), CallDecode,
                        Log (FailedToProcessConfig (ConfigPath pc) err), CallClose])
                  | Inr newConfig \<Rightarrow>
                      (pc\<lparr>CurrentConfig := Some newConfig, LastMod := mt\<rparr>,
                       [CallLstat (ConfigPath pc), CallOpen (ConfigPath pc), CallDecode,
                        Log NewConfigurationLoaded, CallClose])))
          else (pc, [CallLstat (ConfigPath pc)]))"

section \<open>Job supervisor\<close>

definition KB :: "64 word" where
  "KB = 1024"

definition PlotRunning :: int where
  "PlotRunning = 0"

definition PlotError :: int where
  "PlotError = 1"

definition PlotFinished :: int where
  "PlotFinished = 2"

text \<open>
  \<^verbatim>\<open>ActivePlot\<close>. The lock is not a field of the model: the statements it brackets
  (append to the tail and trim it) form one step.
\<close>

record ActivePlot =
  PlotId :: "64 word"
  StartTime :: Time
  EndTime :: Time
  TargetDir :: string
  PlotDir :: string
  Fingerprint :: string
  Phase :: string
  Tail :: "string list"
  State :: int
  Id :: string

subsection \<open>CheckSpace\<close>

text \<open>
  \<^verbatim>\<open>du.NewDiskUsage(dir).Available()\<close> is a system call; the model receives it as the
  function \<open>avail\<close> from a directory to its free bytes (\<^verbatim>\<open>uint64\<close>). The result pairs
  the boolean with the line logged.
\<close>

definition CheckSpace :: "(string \<Rightarrow> 64 word) \<Rightarrow> ActivePlot \<Rightarrow> bool \<times> log_msg list" where
  "CheckSpace avail ap =
     (let plot = avail (PlotDir ap); target = avail (TargetDir ap) in
      if plot < 360 * KB * KB * KB then
        (False, [NotEnoughPlotSpace (PlotDir ap) (plot div (KB * KB * KB))])
      else if target < 360 * KB * KB * KB then
        (False, [NotEnoughTargetSpace (TargetDir ap) (target div (KB * KB * KB))])
      else (True, []))"

subsection \<open>RunPlot\<close>

text \<open>The argument slice built at the top of \<^verbatim>\<open>RunPlot\<close>, and the command made from it.\<close>

definition plot_args :: "ActivePlot \<Rightarrow> string list" where
  "plot_args ap =
     [''plots'', ''create'', ''-k32'', ''-n1'', ''-b6000'', ''-u128'',
      ''-t'' @ TargetDir ap,
      ''-d'' @ TargetDir ap,
      ''-a'' @ Fingerprint ap]"

type_synonym Cmd = "string \<times> string list"

definition plot_cmd :: "ActivePlot \<Rightarrow> Cmd" where
  "plot_cmd ap = (''chia'', plot_args ap)"

text \<open>
  The process environment of \<^verbatim>\<open>RunPlot\<close>: the two readings of \<^verbatim>\<open>time.Now()\<close> (at entry
  and in the deferred function), and for the command the results of \<^verbatim>\<open>StderrPipe\<close>,
  \<^verbatim>\<open>StdoutPipe\<close> (the error, or the bytes the stream will carry) and of \<^verbatim>\<open>Run\<close> (the
  error, \<open>None\<close> for nil: the process started and exited with status zero).
\<close>

datatype exec_error =
  PipeFailure string
  | StartFailure string
  | ExitStatus int
  | CopyFailure string

fun error_text :: "exec_error \<Rightarrow> string" where
  "error_text (PipeFailure s) = s"
| "error_text (StartFailure s) = s"
| "error_text (ExitStatus n) = ''exit status''"
| "error_text (CopyFailure s) = s"

record exec_env =
  NowAtEntry :: Time
  NowAtExit :: Time
  StderrPipe :: "Cmd \<Rightarrow> exec_error + string"
  StdoutPipe :: "Cmd \<Rightarrow> exec_error + string"
  Run :: "Cmd \<Rightarrow> exec_error option"

text \<open>
  The writes of the supervising goroutine. The two scraping goroutines it starts write
  only \<open>Phase\<close>, \<open>Id\<close> and \<open>Tail\<close> (see \<open>processLogs\<close> below), never \<open>State\<close> or the
  timestamps. The deferred assignment of \<open>EndTime\<close> is applied to the result of every
  return. The result is the job, the command handed to \<^verbatim>\<open>exec.Command\<close> and the lines
  logged.
\<close>

definition RunPlot :: "exec_env \<Rightarrow> ActivePlot \<Rightarrow> ActivePlot \<times> Cmd \<times> log_msg list" where
  "RunPlot env ap0 =
     (let ap1 = ap0\<lparr>StartTime := NowAtEntry env\<rparr>;
          cmd = plot_cmd ap1;
          ap2 = ap1\<lparr>State := PlotRunning\<rparr>;
          (ap3, logs) =
            (case StderrPipe env cmd of
               Inl err \<Rightarrow> (ap2\<lparr>State := PlotError\<rparr>, [FailedToStartPlotting (error_text err)])
             | Inr stderr \<Rightarrow>
                 (case StdoutPipe env cmd of
                    Inl err \<Rightarrow> (ap2\<lparr>State := PlotError\<rparr>, [FailedToStartPlotting (error_text err)])
                  | Inr stdout \<Rightarrow>
                      (case Run env cmd of
                         Some err \<Rightarrow>
                           (ap2\<lparr>State := PlotError\<rparr>, [PlottingExitWithError (error_text err)])
                       | None \<Rightarrow> (ap2, []))))
      in (ap3\<lparr>EndTime := NowAtExit env\<rparr>, cmd, logs))"

subsection \<open>processLogs\<close>

text \<open>
  \<^verbatim>\<open>bufio.Reader.ReadString(delim)\<close> on the bytes still unread: the bytes up to and
  including the first delimiter, and the rest; \<open>None\<close> when the stream ends first (the
  call returns \<^verbatim>\<open>io.EOF\<close> and the loop breaks).
\<close>

fun ReadString :: "string \<Rightarrow> char \<Rightarrow> (string \<times> string) option" where
  "ReadString [] d = None"
| "ReadString (c # cs) d =
     (if c = d then Some ([c], cs)
      else (case ReadString cs d of
              None \<Rightarrow> None
            | Some (s, rest) \<Rightarrow> Some (c # s, rest)))"

definition HasPrefix :: "string \<Rightarrow> string \<Rightarrow> bool" where
  "HasPrefix s p = (length p \<le> length s \<and> take (length p) s = p)"

text \<open>Go's \<^verbatim>\<open>s[lo:hi]\<close> on a string, with its bounds check.\<close>

definition slice :: "string \<Rightarrow> nat \<Rightarrow> nat \<Rightarrow> panic + string" where
  "slice s lo hi =
     (if lo \<le> hi \<and> hi \<le> length s then Inr (take (hi - lo) (drop lo s))
      else Inl SliceBoundsOutOfRange)"

text \<open>The statements under the lock: append the line, keep the last ten.\<close>

definition appendTail :: "string \<Rightarrow> string list \<Rightarrow> string list" where
  "appendTail s t =
     (let t' = t @ [s] in
      if length t' > 10 then drop (length t' - 10) t' else t')"

text \<open>The body of the loop for one line \<open>s\<close> that \<open>ReadString\<close> returned.\<close>

definition scrapeLine :: "string \<Rightarrow> ActivePlot \<Rightarrow> panic + ActivePlot" where
  "scrapeLine s ap =
     (case (if HasPrefix s ''Starting phase ''
            then (case slice s 15 18 of Inl e \<Rightarrow> Inl e | Inr p \<Rightarrow> Inr (ap\<lparr>Phase := p\<rparr>))
            else Inr ap) of
        Inl e \<Rightarrow> Inl e
      | Inr ap1 \<Rightarrow>
          (case (if HasPrefix s ''ID: ''
                 then (case slice s 4 (length s) of Inl e \<Rightarrow> Inl e | Inr i \<Rightarrow> Inr (ap1\<lparr>Id := i\<rparr>))
                 else Inr ap1) of
             Inl e \<Rightarrow> Inl e
           | Inr ap2 \<Rightarrow> Inr (ap2\<lparr>Tail := appendTail s (Tail ap2)\<rparr>)))"

lemma ReadString_shorter: "ReadString inp d = Some (s, rest) \<Longrightarrow> length rest < length inp"
  by (induction inp arbitrary: s) (auto split: if_splits option.splits)

function processLogs :: "string \<Rightarrow> ActivePlot \<Rightarrow> panic + ActivePlot" where
  "processLogs inp ap =
     (case ReadString inp (CHR 0x0A) of
        None \<Rightarrow> Inr ap
      | Some (s, rest) \<Rightarrow>
          (case scrapeLine s ap of
             Inl e \<Rightarrow> Inl e
           | Inr ap' \<Rightarrow> processLogs rest ap'))"
  by pat_completeness auto
termination
  by (relation "measure (\<lambda>(inp, ap). length inp)") (auto simp: ReadString_shorter)

declare processLogs.simps [simp del]

text \<open>
  The lines a stream yields, and the loop body run over a sequence of lines. Two
  scrapers of one job append under the same lock, so the tail of the job sees one
  sequence of lines, some interleaving of the two streams' lines.
\<close>

function ReadLines :: "string \<Rightarrow> string list" where
  "ReadLines inp =
     (case ReadString inp (CHR 0x0A) of
        None \<Rightarrow> []
      | Some (s, rest) \<Rightarrow> s # ReadLines rest)"
  by pat_completeness auto
termination
  by (relation "measure length") (auto simp: ReadString_shorter)

declare ReadLines.simps [simp del]

fun scrapeLines :: "string list \<Rightarrow> ActivePlot \<Rightarrow> panic + ActivePlot" where
  "scrapeLines [] ap = Inr ap"
| "scrapeLines (s # ls) ap =
     (case scrapeLine s ap of
        Inl e \<Rightarrow> Inl e
      | Inr ap' \<Rightarrow> scrapeLines ls ap')"

section \<open>Sample inputs\<close>

definition sample_job :: ActivePlot where
  "sample_job =
     \<lparr>PlotId = 0, StartTime = \<lparr>wall = 0, ext = 0, loc = None\<rparr>,
      EndTime = \<lparr>wall = 0, ext = 0, loc = None\<rparr>, TargetDir = ''/dst'', PlotDir = ''/tmp'',
      Fingerprint = ''f'', Phase = [], Tail = [], State = 0, Id = []\<rparr>"

text \<open>A run in which both pipes are obtained and the process exits with status zero.\<close>

definition clean_run :: exec_env where
  "clean_run =
     \<lparr>NowAtEntry = \<lparr>wall = 0, ext = 1, loc = None\<rparr>,
      NowAtExit = \<lparr>wall = 0, ext = 2, loc = None\<rparr>,
      StderrPipe = (\<lambda>c. Inr []), StdoutPipe = (\<lambda>c. Inr []), Run = (\<lambda>c. None)\<rparr>"

definition sample_config :: PlotConfig where
  "sample_config =
     \<lparr>ConfigPath = ''config.json'', CurrentConfig = None,
      LastMod = \<lparr>wall = 0, ext = 0, loc = None\<rparr>\<rparr>"

text \<open>A file changed at \<open>ext = 1\<close> whose content does not parse.\<close>

definition malformed_file :: config_env where
  "malformed_file =
     \<lparr>Lstat = (\<lambda>p. Inr \<lparr>wall = 0, ext = 1, loc = None\<rparr>),
      Open = (\<lambda>p. Inr ''{''),
      Decode = (\<lambda>b. Inl ''unexpected EOF'')\<rparr>"

text \<open>A file that is not there, and a file that is there but cannot be opened.\<close>

definition missing_file :: config_env where
  "missing_file =
     \<lparr>Lstat = (\<lambda>p. Inl ''no such file or directory''),
      Open = (\<lambda>p. Inl ''no such file or directory''),
      Decode = (\<lambda>b. Inl ''EOF'')\<rparr>"

definition unreadable_file :: config_env where
  "unreadable_file =
     \<lparr>Lstat = (\<lambda>p. Inr \<lparr>wall = 0, ext = 1, loc = None\<rparr>),
      Open = (\<lambda>p. Inl ''permission denied''),
      Decode = (\<lambda>b. Inl ''EOF'')\<rparr>"

section \<open>Sortable table\<close>

subsection \<open>Rows and their reflected fields\<close>

text \<open>
  The comparator of \<^verbatim>\<open>sortData\<close> reads a row through Go's \<^verbatim>\<open>reflect\<close> package. A struct
  field, as a \<^verbatim>\<open>reflect.Value\<close>, is modelled by whether it is exported, the name of its
  type, and its value by kind: a string, a signed integer (\<^verbatim>\<open>Int()\<close> widens to
  \<^verbatim>\<open>int64\<close>), an unsigned integer (\<^verbatim>\<open>Uint()\<close> widens to \<^verbatim>\<open>uint64\<close>), a \<^verbatim>\<open>uintptr\<close>, a
  \<^verbatim>\<open>time.Time\<close>, or anything else.
\<close>

datatype field_value =
  StringVal string
  | IntVal "64 word"
  | UintVal "64 word"
  | UintptrVal "64 word"
  | TimeVal Time
  | OtherVal

datatype field = Field (exported: bool) (type_name: string) (val: field_value)

text \<open>
  A non-nil \<^verbatim>\<open>SortableRow\<close> is a pointer to a struct, with the struct's fields and the
  result of its \<^verbatim>\<open>Strings()\<close> method, or some other value (a struct by value, a nil
  pointer, a pointer to something that is no struct), on which \<^verbatim>\<open>Elem().NumField()\<close>
  panics. The nil interface is \<open>None\<close> in \<open>data\<close> below.
\<close>

datatype SortableRow =
  StructPtr "field list" "string list"
  | NoStruct "string list"

fun Strings :: "SortableRow \<Rightarrow> string list" where
  "Strings (StructPtr fs ss) = ss"
| "Strings (NoStruct ss) = ss"

record tableRow =
  key :: string
  data :: "SortableRow option"

text \<open>
  Of the \<^verbatim>\<open>tview.Table\<close> behind the proxy the model keeps the selected cell. The cell
  grid is display output: \<^verbatim>\<open>redrawHeaders\<close> and \<^verbatim>\<open>updateData\<close> write it, and nothing
  modelled here reads it back.
\<close>

record tviewTable =
  selectedRow :: int
  selectedColumn :: int

text \<open>
  \<^verbatim>\<open>SortedTable\<close>. The handler \<^verbatim>\<open>selectionChangedFunc\<close> is caller code: the model keeps
  whether one is set (not nil) and, in \<open>notified\<close>, the keys it has been called with.
\<close>

text \<open>The field \<^verbatim>\<open>values\<close> of the source is \<open>rowValues\<close> here.\<close>

record SortedTable =
  table :: tviewTable
  rowValues :: "tableRow list"
  curRow :: int
  curKey :: string
  sortColumn :: int
  sortReverse :: bool
  columnAlign :: "int \<rightharpoonup> int"
  selectionChangedFunc :: bool
  notified :: "string list"

definition NewSortedTable :: SortedTable where
  "NewSortedTable =
     \<lparr>table = \<lparr>selectedRow = 0, selectedColumn = 0\<rparr>, rowValues = [], curRow = 0, curKey = [],
      sortColumn = 0, sortReverse = False, columnAlign = Map.empty,
      selectionChangedFunc = False, notified = []\<rparr>"

text \<open>Go's \<^verbatim>\<open>xs[i]\<close> on a slice, with its bounds check.\<close>

definition index :: "'a list \<Rightarrow> int \<Rightarrow> panic + 'a" where
  "index xs i = (if 0 \<le> i \<and> i < int (length xs) then Inr (xs ! nat i) else Inl IndexOutOfRange)"

subsection \<open>Selection\<close>

text \<open>The branch of \<^verbatim>\<open>selectionChanged\<close> for a row below the header (\<open>row > 0\<close>).\<close>

definition selectionChanged_data :: "int \<Rightarrow> SortedTable \<Rightarrow> panic + SortedTable" where
  "selectionChanged_data row st =
     (let st1 = st\<lparr>curRow := row\<rparr> in
      case index (rowValues st1) (row - 1) of
        Inl e \<Rightarrow> Inl e
      | Inr r \<Rightarrow>
          if curKey st1 \<noteq> key r then
            Inr (st1\<lparr>curKey := key r,
                     notified := (if selectionChangedFunc st1 then notified st1 @ [key r]
                                  else notified st1)\<rparr>)
          else Inr st1)"

text \<open>
  \<^verbatim>\<open>tview.Table.Select\<close> stores the selected cell and then fires the selection-changed
  callback, which \<^verbatim>\<open>NewSortedTable\<close> has set to \<^verbatim>\<open>selectionChanged\<close>. For the header row
  \<^verbatim>\<open>selectionChanged\<close> selects the last known row again, which fires the callback once
  more, now with a row below the header.
\<close>

definition selectionChanged :: "int \<Rightarrow> int \<Rightarrow> SortedTable \<Rightarrow> panic + SortedTable" where
  "selectionChanged row column st =
     (if row \<le> 0 then
        (if curRow st > 0 then
           selectionChanged_data (curRow st)
             (st\<lparr>table := \<lparr>selectedRow = curRow st, selectedColumn = 0\<rparr>\<rparr>)
         else Inr st)
      else selectionChanged_data row st)"

definition table_Select :: "int \<Rightarrow> int \<Rightarrow> SortedTable \<Rightarrow> panic + SortedTable" where
  "table_Select row column st =
     selectionChanged row column (st\<lparr>table := \<lparr>selectedRow = row, selectedColumn = column\<rparr>\<rparr>)"

definition SetSelectionChangedFunc :: "bool \<Rightarrow> SortedTable \<Rightarrow> SortedTable" where
  "SetSelectionChangedFunc handler st = st\<lparr>selectionChangedFunc := handler\<rparr>"

definition GetSelection :: "SortedTable \<Rightarrow> panic + string" where
  "GetSelection st =
     (if curRow st > 0 then
        (case index (rowValues st) (curRow st - 1) of
           Inl e \<Rightarrow> Inl e
         | Inr r \<Rightarrow> Inr (key r))
      else Inr [])"

text \<open>The loop of \<^verbatim>\<open>Select\<close>: \<open>row\<close> counts the entries already passed.\<close>

fun Select_loop :: "string \<Rightarrow> nat \<Rightarrow> tableRow list \<Rightarrow> SortedTable \<Rightarrow> panic + SortedTable" where
  "Select_loop k row [] st = Inr st"
| "Select_loop k row (v # vs) st =
     (if key v = k then table_Select (int row + 1) 0 st
      else Select_loop k (Suc row) vs st)"

definition Select :: "string \<Rightarrow> SortedTable \<Rightarrow> panic + SortedTable" where
  "Select k st = Select_loop k 0 (rowValues st) st"

subsection \<open>Entries\<close>

definition Clear :: "SortedTable \<Rightarrow> SortedTable" where
  "Clear st = st\<lparr>rowValues := []\<rparr>"

definition Keys :: "SortedTable \<Rightarrow> string list" where
  "Keys st = map key (rowValues st)"

text \<open>The loop of \<^verbatim>\<open>SetRowData\<close>: the list with the first entry of that key replaced, if any.\<close>

fun SetRowData_loop :: "string \<Rightarrow> SortableRow option \<Rightarrow> tableRow list \<Rightarrow> tableRow list option" where
  "SetRowData_loop k d [] = None"
| "SetRowData_loop k d (dr # rest) =
     (if key dr = k then Some (dr\<lparr>data := d\<rparr> # rest)
      else map_option ((#) dr) (SetRowData_loop k d rest))"

definition SetRowData :: "string \<Rightarrow> SortableRow option \<Rightarrow> SortedTable \<Rightarrow> SortedTable" where
  "SetRowData k d st =
     (case SetRowData_loop k d (rowValues st) of
        Some vs \<Rightarrow> st\<lparr>rowValues := vs\<rparr>
      | None \<Rightarrow> st\<lparr>rowValues := rowValues st @ [\<lparr>key = k, data = d\<rparr>]\<rparr>)"

text \<open>
  The loop of \<^verbatim>\<open>ClearRowData\<close> appends the entries it keeps to \<open>newValues\<close>, which
  starts empty on the array of \<open>rowValues\<close>: each write lands at or before the entry being
  read, so the entries read are the old ones.
\<close>

fun ClearRowData_loop :: "string \<Rightarrow> tableRow list \<Rightarrow> tableRow list \<Rightarrow> tableRow list" where
  "ClearRowData_loop k newValues [] = newValues"
| "ClearRowData_loop k newValues (row # rest) =
     (if key row \<noteq> k then ClearRowData_loop k (newValues @ [row]) rest
      else ClearRowData_loop k newValues rest)"

definition ClearRowData :: "string \<Rightarrow> SortedTable \<Rightarrow> SortedTable" where
  "ClearRowData k st = st\<lparr>rowValues := ClearRowData_loop k [] (rowValues st)\<rparr>"

definition setSortColumn :: "int \<Rightarrow> SortedTable \<Rightarrow> SortedTable" where
  "setSortColumn col st =
     (if sortColumn st = col then st\<lparr>sortReverse := \<not> sortReverse st\<rparr>
      else st\<lparr>sortColumn := col, sortReverse := False\<rparr>)"

definition SetColumnAlign :: "int \<Rightarrow> int \<Rightarrow> SortedTable \<Rightarrow> SortedTable" where
  "SetColumnAlign col align st = st\<lparr>columnAlign := (columnAlign st)(col \<mapsto> align)\<rparr>"

subsection \<open>The comparator\<close>

text \<open>
  \<^verbatim>\<open>Time.Before\<close> of Go's time package: with a monotonic reading in both rowValues (top bit
  of \<open>wall\<close>) the readings in \<open>ext\<close> are compared, otherwise seconds and nanoseconds.
\<close>

definition hasMonotonic :: "64 word" where
  "hasMonotonic = push_bit 63 1"

definition wallToInternal :: "64 word" where
  "wallToInternal = 59453308800"

definition sec :: "Time \<Rightarrow> 64 word" where
  "sec t =
     (if and (wall t) hasMonotonic \<noteq> 0
      then wallToInternal + drop_bit 31 (push_bit 1 (wall t))
      else ext t)"

definition nsec :: "Time \<Rightarrow> 64 word" where
  "nsec t = and (wall t) (push_bit 30 1 - 1)"

definition Before :: "Time \<Rightarrow> Time \<Rightarrow> bool" where
  "Before t u =
     (if and (and (wall t) (wall u)) hasMonotonic \<noteq> 0 then sint (ext t) < sint (ext u)
      else sint (sec t) < sint (sec u) \<or> (sec t = sec u \<and> nsec t < nsec u))"

text \<open>
  The getters of \<^verbatim>\<open>reflect.Value\<close>. \<^verbatim>\<open>String()\<close> never panics: on a value that is no
  string it gives the type's name in angle brackets. \<^verbatim>\<open>Int()\<close> and \<^verbatim>\<open>Uint()\<close> panic on
  another kind, \<^verbatim>\<open>Interface()\<close> on an unexported field.
\<close>

definition Value_String :: "field \<Rightarrow> string" where
  "Value_String f =
     (case val f of StringVal s \<Rightarrow> s | _ \<Rightarrow> ''<'' @ type_name f @ '' Value>'')"

definition Value_Int :: "field \<Rightarrow> panic + 64 word" where
  "Value_Int f = (case val f of IntVal i \<Rightarrow> Inr i | _ \<Rightarrow> Inl ReflectPanic)"

definition Value_Uint :: "field \<Rightarrow> panic + 64 word" where
  "Value_Uint f =
     (case val f of UintVal u \<Rightarrow> Inr u | UintptrVal u \<Rightarrow> Inr u | _ \<Rightarrow> Inl ReflectPanic)"

definition Value_Interface :: "field \<Rightarrow> panic + field_value" where
  "Value_Interface f = (if exported f then Inr (val f) else Inl ReflectPanic)"

text \<open>The two switches of the comparator, on the fields \<open>f1\<close> and \<open>f2\<close> of the sort column.\<close>

definition compare_fields :: "bool \<Rightarrow> field \<Rightarrow> field \<Rightarrow> panic + bool" where
  "compare_fields reverse f1 f2 =
     (case val f1 of
        StringVal s1 \<Rightarrow> Inr ((s1 < Value_String f2) \<noteq> reverse)
      | IntVal i1 \<Rightarrow>
          (case Value_Int f2 of
             Inl e \<Rightarrow> Inl e
           | Inr i2 \<Rightarrow> Inr ((sint i1 < sint i2) \<noteq> reverse))
      | UintVal u1 \<Rightarrow>
          (case Value_Uint f2 of
             Inl e \<Rightarrow> Inl e
           | Inr u2 \<Rightarrow> Inr ((u1 < u2) \<noteq> reverse))
      | _ \<Rightarrow>
          (case Value_Interface f1 of
             Inl e \<Rightarrow> Inl e
           | Inr (TimeVal c1) \<Rightarrow>
               (case Value_Interface f2 of
                  Inl e \<Rightarrow> Inl e
                | Inr (TimeVal c2) \<Rightarrow> Inr (Before c1 c2 \<noteq> reverse)
                | Inr _ \<Rightarrow> Inl InterfaceConversion)
           | Inr _ \<Rightarrow> Inl UnexpectedType))"

text \<open>
  The function passed to \<^verbatim>\<open>sort.SliceStable\<close>, on the data of the two rows compared, for
  the table's \<open>sortColumn\<close> and \<open>sortReverse\<close>.
\<close>

definition sortData_less :: "int \<Rightarrow> bool \<Rightarrow> SortableRow option \<Rightarrow> SortableRow option \<Rightarrow> panic + bool" where
  "sortData_less col reverse row1Value row2Value =
     (case row2Value of
        None \<Rightarrow> Inr True
      | Some r2 \<Rightarrow>
          (case row1Value of
             None \<Rightarrow> Inr False
           | Some r1 \<Rightarrow>
               (case (r1, r2) of
                  (StructPtr v1 s1, StructPtr v2 s2) \<Rightarrow>
                    if length v1 \<noteq> length v2 \<or> int (length v1) < col then Inr False
                    else
                      (case index v1 col of
                         Inl e \<Rightarrow> Inl ReflectPanic
                       | Inr f1 \<Rightarrow>
                           (case index v2 col of
                              Inl e \<Rightarrow> Inl ReflectPanic
                            | Inr f2 \<Rightarrow> compare_fields reverse f1 f2))
                | _ \<Rightarrow> Inl ReflectPanic)))"

definition row_less :: "int \<Rightarrow> bool \<Rightarrow> tableRow \<Rightarrow> tableRow \<Rightarrow> panic + bool" where
  "row_less col reverse row1 row2 = sortData_less col reverse (data row1) (data row2)"

subsection \<open>sort.SliceStable\<close>

text \<open>
  Go's \<^verbatim>\<open>sort.SliceStable(x, less)\<close> runs \<^verbatim>\<open>stable_func\<close> of the standard library on the
  slice in place: insertion sort on blocks of 20 entries, then rounds of in-place merges
  (\<^verbatim>\<open>symMerge_func\<close>) of neighbouring blocks, the block size doubling each round. Every
  change of the slice is a swap of two entries. The comparator \<open>lt\<close> is applied to the
  entries that stand at the two indices at the time of the call, and a panic of the
  comparator ends the sort. All indices stay below the length of the slice.
\<close>

definition Swap :: "nat \<Rightarrow> nat \<Rightarrow> 'a list \<Rightarrow> 'a list" where
  "Swap i j xs = xs[i := xs ! j, j := xs ! i]"

text \<open>The inner loop of \<^verbatim>\<open>insertionSort_func\<close>: \<open>j\<close> moves down while entry \<open>j\<close> is less than entry \<open>j - 1\<close>.\<close>

fun insertionSort_inner :: "('a \<Rightarrow> 'a \<Rightarrow> panic + bool) \<Rightarrow> nat \<Rightarrow> nat \<Rightarrow> 'a list \<Rightarrow> panic + 'a list" where
  "insertionSort_inner lt a 0 xs = Inr xs"
| "insertionSort_inner lt a (Suc j) xs =
     (if a < Suc j then
        (case lt (xs ! Suc j) (xs ! j) of
           Inl e \<Rightarrow> Inl e
         | Inr c \<Rightarrow>
             if c then insertionSort_inner lt a j (Swap (Suc j) j xs) else Inr xs)
      else Inr xs)"

function insertionSort_outer ::
  "('a \<Rightarrow> 'a \<Rightarrow> panic + bool) \<Rightarrow> nat \<Rightarrow> nat \<Rightarrow> nat \<Rightarrow> 'a list \<Rightarrow> panic + 'a list" where
  "insertionSort_outer lt a b i xs =
     (if i < b then
        (case insertionSort_inner lt a i xs of
           Inl e \<Rightarrow> Inl e
         | Inr xs' \<Rightarrow> insertionSort_outer lt a b (Suc i) xs')
      else Inr xs)"
  by pat_completeness auto
termination
  by (relation "measure (\<lambda>(lt, a, b, i, xs). b - i)") auto

declare insertionSort_outer.simps [simp del]

definition insertionSort_func :: "('a \<Rightarrow> 'a \<Rightarrow> panic + bool) \<Rightarrow> nat \<Rightarrow> nat \<Rightarrow> 'a list \<Rightarrow> panic + 'a list" where
  "insertionSort_func lt a b xs = insertionSort_outer lt a b (a + 1) xs"

text \<open>\<^verbatim>\<open>swapRange_func(a, b, n)\<close>: \<open>i\<close> counts the swaps done.\<close>

function swapRange_loop :: "nat \<Rightarrow> nat \<Rightarrow> nat \<Rightarrow> nat \<Rightarrow> 'a list \<Rightarrow> 'a list" where
  "swapRange_loop a b n i xs =
     (if i < n then swapRange_loop a b n (Suc i) (Swap (a + i) (b + i) xs) else xs)"
  by pat_completeness auto
termination
  by (relation "measure (\<lambda>(a, b, n, i, xs). n - i)") auto

declare swapRange_loop.simps [simp del]

definition swapRange_func :: "nat \<Rightarrow> nat \<Rightarrow> nat \<Rightarrow> 'a list \<Rightarrow> 'a list" where
  "swapRange_func a b n xs = swapRange_loop a b n 0 xs"

text \<open>
  The loop of \<^verbatim>\<open>rotate_func\<close> on the two block lengths \<open>i\<close> and \<open>j\<close>. With one of them
  zero and the other not, Go's loop changes nothing and runs forever: \<open>None\<close>.
  \<^verbatim>\<open>symMerge_func\<close> calls it with both positive.
\<close>

function rotate_loop :: "nat \<Rightarrow> nat \<Rightarrow> nat \<Rightarrow> 'a list \<Rightarrow> 'a list option" where
  "rotate_loop m i j xs =
     (if i \<noteq> j then
        (if i = 0 \<or> j = 0 then None
         else if i > j then rotate_loop m (i - j) j (swapRange_func (m - i) m j xs)
         else rotate_loop m i (j - i) (swapRange_func (m - i) (m + j - i) i xs))
      else Some (swapRange_func (m - i) m i xs))"
  by pat_completeness auto
termination
  by (relation "measure (\<lambda>(m, i, j, xs). i + j)") auto

declare rotate_loop.simps [simp del]

definition rotate_func :: "nat \<Rightarrow> nat \<Rightarrow> nat \<Rightarrow> 'a list \<Rightarrow> 'a list option" where
  "rotate_func a m b xs = rotate_loop m (m - a) (b - m) xs"

text \<open>The three binary searches of \<^verbatim>\<open>symMerge_func\<close>.\<close>

function search_single_left ::
  "('a \<Rightarrow> 'a \<Rightarrow> panic + bool) \<Rightarrow> 'a list \<Rightarrow> nat \<Rightarrow> nat \<Rightarrow> nat \<Rightarrow> panic + nat" where
  "search_single_left lt xs a i j =
     (if i < j then
        (let h = (i + j) div 2 in
         case lt (xs ! h) (xs ! a) of
           Inl e \<Rightarrow> Inl e
         | Inr c \<Rightarrow>
             if c then search_single_left lt xs a (h + 1) j
             else search_single_left lt xs a i h)
      else Inr i)"
  by pat_completeness auto
termination
  by (relation "measure (\<lambda>(lt, xs, a, i, j). j - i)") auto

declare search_single_left.simps [simp del]

function search_single_right ::
  "('a \<Rightarrow> 'a \<Rightarrow> panic + bool) \<Rightarrow> 'a list \<Rightarrow> nat \<Rightarrow> nat \<Rightarrow> nat \<Rightarrow> panic + nat" where
  "search_single_right lt xs m i j =
     (if i < j then
        (let h = (i + j) div 2 in
         case lt (xs ! m) (xs ! h) of
           Inl e \<Rightarrow> Inl e
         | Inr c \<Rightarrow>
             if \<not> c then search_single_right lt xs m (h + 1) j
             else search_single_right lt xs m i h)
      else Inr i)"
  by pat_completeness auto
termination
  by (relation "measure (\<lambda>(lt, xs, m, i, j). j - i)") auto

declare search_single_right.simps [simp del]

function search_split ::
  "('a \<Rightarrow> 'a \<Rightarrow> panic + bool) \<Rightarrow> 'a list \<Rightarrow> nat \<Rightarrow> nat \<Rightarrow> nat \<Rightarrow> panic + nat" where
  "search_split lt xs p start r =
     (if start < r then
        (let c = (start + r) div 2 in
         case lt (xs ! (p - c)) (xs ! c) of
           Inl e \<Rightarrow> Inl e
         | Inr b \<Rightarrow>
             if \<not> b then search_split lt xs p (c + 1) r
             else search_split lt xs p start c)
      else Inr start)"
  by pat_completeness auto
termination
  by (relation "measure (\<lambda>(lt, xs, p, start, r). r - start)") auto

declare search_split.simps [simp del]

text \<open>The two loops of single swaps that move one entry into place.\<close>

function swap_up :: "nat \<Rightarrow> nat \<Rightarrow> 'a list \<Rightarrow> 'a list" where
  "swap_up k lim xs = (if k < lim then swap_up (Suc k) lim (Swap k (k + 1) xs) else xs)"
  by pat_completeness auto
termination
  by (relation "measure (\<lambda>(k, lim, xs). lim - k)") auto

declare swap_up.simps [simp del]

fun swap_down :: "nat \<Rightarrow> nat \<Rightarrow> 'a list \<Rightarrow> 'a list" where
  "swap_down 0 i xs = xs"
| "swap_down (Suc k) i xs = (if Suc k > i then swap_down k i (Swap (Suc k) k xs) else xs)"

text \<open>
  \<^verbatim>\<open>symMerge_func(a, m, b)\<close> merges the neighbouring ranges from \<open>a\<close> to \<open>m\<close> and from
  \<open>m\<close> to \<open>b\<close>. It calls \<open>rotate_func\<close> with \<open>start < m < end\<close> only, so the
  branch \<open>LoopsForever\<close> is written out but not taken.
\<close>

lemma symMerge_upper_half:
  "(a + b) div 2 < e \<Longrightarrow> e < b \<Longrightarrow> b - (a + b) div 2 < b - (a::nat)"
  by arith

function symMerge_func ::
  "('a \<Rightarrow> 'a \<Rightarrow> panic + bool) \<Rightarrow> nat \<Rightarrow> nat \<Rightarrow> nat \<Rightarrow> 'a list \<Rightarrow> panic + 'a list" where
  "symMerge_func lt a m b xs =
     (if m - a = 1 then
        (case search_single_left lt xs a m b of
           Inl e \<Rightarrow> Inl e
         | Inr i \<Rightarrow> Inr (swap_up a (i - 1) xs))
      else if b - m = 1 then
        (case search_single_right lt xs m a m of
           Inl e \<Rightarrow> Inl e
         | Inr i \<Rightarrow> Inr (swap_down m i xs))
      else
        (let mid = (a + b) div 2;
             n = mid + m;
             start0 = (if m > mid then n - b else a);
             r = (if m > mid then mid else m);
             p = n - 1
         in case search_split lt xs p start0 r of
              Inl e \<Rightarrow> Inl e
            | Inr start \<Rightarrow>
                (let end = n - start in
                 case (if start < m \<and> m < end then rotate_func start m end xs else Some xs) of
                   None \<Rightarrow> Inl LoopsForever
                 | Some xs1 \<Rightarrow>
                     (case (if a < start \<and> start < mid then symMerge_func lt a start mid xs1
                            else Inr xs1) of
                        Inl e \<Rightarrow> Inl e
                      | Inr xs2 \<Rightarrow>
                          if mid < end \<and> end < b then symMerge_func lt mid end b xs2
                          else Inr xs2))))"
  by pat_completeness auto
termination
  by (relation "measure (\<lambda>(lt, a, m, b, xs). b - a)") (auto intro: symMerge_upper_half)

declare symMerge_func.simps [simp del]

text \<open>
  \<^verbatim>\<open>stable_func(data, n)\<close>. First loop: insertion sort on the blocks of 20 from \<open>a\<close> to
  \<open>b\<close>, then on the rest.
\<close>

function stable_blocks ::
  "('a \<Rightarrow> 'a \<Rightarrow> panic + bool) \<Rightarrow> nat \<Rightarrow> nat \<Rightarrow> nat \<Rightarrow> 'a list \<Rightarrow> panic + 'a list" where
  "stable_blocks lt n a b xs =
     (if b \<le> n then
        (case insertionSort_func lt a b xs of
           Inl e \<Rightarrow> Inl e
         | Inr xs' \<Rightarrow> stable_blocks lt n b (b + 20) xs')
      else insertionSort_func lt a n xs)"
  by pat_completeness auto
termination
  by (relation "measure (\<lambda>(lt, n, a, b, xs). n + 1 - b)") auto

declare stable_blocks.simps [simp del]

text \<open>
  Second loop, one round: \<open>blockSize\<close> is 20 doubled \<open>k\<close> times, \<open>k\<close> the number of
  rounds done; neighbouring blocks are merged from \<open>a\<close> on, then the rest.
\<close>

function merge_round ::
  "('a \<Rightarrow> 'a \<Rightarrow> panic + bool) \<Rightarrow> nat \<Rightarrow> nat \<Rightarrow> nat \<Rightarrow> nat \<Rightarrow> 'a list \<Rightarrow> panic + 'a list" where
  "merge_round lt n k a b xs =
     (let blockSize = 20 * 2 ^ k in
      if b \<le> n then
        (case symMerge_func lt a (a + blockSize) b xs of
           Inl e \<Rightarrow> Inl e
         | Inr xs' \<Rightarrow> merge_round lt n k b (b + 2 * blockSize) xs')
      else
        (let m = a + blockSize in
         if m < n then symMerge_func lt a m n xs else Inr xs))"
  by pat_completeness auto
termination
  by (relation "measure (\<lambda>(lt, n, k, a, b, xs). n + 1 - b)") (auto intro!: diff_less_mono2)

declare merge_round.simps [simp del]

function merge_rounds ::
  "('a \<Rightarrow> 'a \<Rightarrow> panic + bool) \<Rightarrow> nat \<Rightarrow> nat \<Rightarrow> 'a list \<Rightarrow> panic + 'a list" where
  "merge_rounds lt n k xs =
     (let blockSize = 20 * 2 ^ k in
      if blockSize < n then
        (case merge_round lt n k 0 (2 * blockSize) xs of
           Inl e \<Rightarrow> Inl e
         | Inr xs' \<Rightarrow> merge_rounds lt n (Suc k) xs')
      else Inr xs)"
  by pat_completeness auto
termination
  by (relation "measure (\<lambda>(lt, n, k, xs). n - 20 * 2 ^ k)") (auto intro!: diff_less_mono2)

declare merge_rounds.simps [simp del]

definition stable_func :: "('a \<Rightarrow> 'a \<Rightarrow> panic + bool) \<Rightarrow> nat \<Rightarrow> 'a list \<Rightarrow> panic + 'a list" where
  "stable_func lt n xs =
     (case stable_blocks lt n 0 20 xs of
        Inl e \<Rightarrow> Inl e
      | Inr xs' \<Rightarrow> merge_rounds lt n 0 xs')"

definition SliceStable :: "('a \<Rightarrow> 'a \<Rightarrow> panic + bool) \<Rightarrow> 'a list \<Rightarrow> panic + 'a list" where
  "SliceStable lt xs = stable_func lt (length xs) xs"

subsection \<open>Redraw\<close>

definition sortData :: "SortedTable \<Rightarrow> panic + SortedTable" where
  "sortData st =
     (case SliceStable (row_less (sortColumn st) (sortReverse st)) (rowValues st) of
        Inl e \<Rightarrow> Inl e
      | Inr vs \<Rightarrow> Inr (st\<lparr>rowValues := vs\<rparr>))"

text \<open>
  \<^verbatim>\<open>updateData\<close> calls \<^verbatim>\<open>Strings()\<close> on the data of every entry, which panics on a nil
  interface; the texts go into the cell grid. The loop gives the texts row by row.
\<close>

fun updateData_loop :: "tableRow list \<Rightarrow> panic + string list list" where
  "updateData_loop [] = Inr []"
| "updateData_loop (rowData # rest) =
     (case data rowData of
        None \<Rightarrow> Inl NilPointerDereference
      | Some d \<Rightarrow>
          (case updateData_loop rest of
             Inl e \<Rightarrow> Inl e
           | Inr cells \<Rightarrow> Inr (Strings d # cells)))"

definition updateData :: "SortedTable \<Rightarrow> panic + SortedTable" where
  "updateData st =
     (case updateData_loop (rowValues st) of
        Inl e \<Rightarrow> Inl e
      | Inr cells \<Rightarrow> Inr st)"

text \<open>\<^verbatim>\<open>Redraw\<close>; \<^verbatim>\<open>redrawHeaders\<close> only colours the header cells.\<close>

definition Redraw :: "SortedTable \<Rightarrow> panic + SortedTable" where
  "Redraw st =
     (case GetSelection st of
        Inl e \<Rightarrow> Inl e
      | Inr selectedKey \<Rightarrow>
          (case sortData st of
             Inl e \<Rightarrow> Inl e
           | Inr st1 \<Rightarrow>
               (case updateData st1 of
                  Inl e \<Rightarrow> Inl e
                | Inr st2 \<Rightarrow> Select selectedKey st2)))"

subsection \<open>Sample tables\<close>

definition int_row :: "int \<Rightarrow> SortableRow" where
  "int_row n = StructPtr [Field True ''int'' (IntVal (word_of_int n))] []"

definition two_equal_rows :: SortedTable where
  "two_equal_rows =
     SetRowData ''y'' (Some (int_row 1)) (SetRowData ''x'' (Some (int_row 1)) NewSortedTable)"

text \<open>
  The table after \<open>SetRowData\<close> of one entry \<open>a\<close> with data \<open>d\<close> on a new table and
  \<open>Select\<close> of \<open>a\<close>: one entry, the first data row selected.
\<close>

definition one_row_selected :: "SortableRow option \<Rightarrow> SortedTable" where
  "one_row_selected d =
     NewSortedTable
       \<lparr>table := \<lparr>selectedRow = 1, selectedColumn = 0\<rparr>,
        rowValues := [\<lparr>key = ''a'', data = d\<rparr>], curRow := 1, curKey := ''a''\<rparr>"

definition three_rows :: SortedTable where
  "three_rows =
     SetRowData ''c'' (Some (int_row 3))
       (SetRowData ''b'' (Some (int_row 2))
         (SetRowData ''a'' (Some (int_row 1)) NewSortedTable))"

section \<open>Properties of the configuration store\<close>

text \<open>
  C6. A poll whose stat, open or decode fails leaves the published snapshot as it was.
  When the modification time had changed and the open or the decode failed, the new
  modification time is stored all the same, and a later poll that finds the same
  modification time performs the stat only (no open, no decode) and changes nothing.
\<close>

theorem ProcessConfig_failure:
  "(Lstat env (ConfigPath pc) = Inl e \<longrightarrow> fst (ProcessConfig env pc) = pc)
   \<and> (Lstat env (ConfigPath pc) = Inr mt
        \<and> (Open env (ConfigPath pc) = Inl e
             \<or> (Open env (ConfigPath pc) = Inr f \<and> Decode env f = Inl e)) \<longrightarrow>
        CurrentConfig (fst (ProcessConfig env pc)) = CurrentConfig pc
        \<and> (LastMod pc \<noteq> mt \<longrightarrow>
             LastMod (fst (ProcessConfig env pc)) = mt
             \<and> (\<forall>env'. Lstat env' (ConfigPath pc) = Inr mt \<longrightarrow>
                   ProcessConfig env' (fst (ProcessConfig env pc))
                   = (fst (ProcessConfig env pc), [CallLstat (ConfigPath pc)]))))"
  by (auto simp: ProcessConfig_def split: sum.splits)

theorem ProcessConfig_failure_witness:
  "fst (ProcessConfig malformed_file sample_config)
     = sample_config\<lparr>LastMod := \<lparr>wall = 0, ext = 1, loc = None\<rparr>\<rparr>
   \<and> ProcessConfig malformed_file (fst (ProcessConfig malformed_file sample_config))
     = (sample_config\<lparr>LastMod := \<lparr>wall = 0, ext = 1, loc = None\<rparr>\<rparr>, [CallLstat ''config.json''])
   \<and> fst (ProcessConfig unreadable_file sample_config)
     = sample_config\<lparr>LastMod := \<lparr>wall = 0, ext = 1, loc = None\<rparr>\<rparr>
   \<and> ProcessConfig unreadable_file (fst (ProcessConfig unreadable_file sample_config))
     = (sample_config\<lparr>LastMod := \<lparr>wall = 0, ext = 1, loc = None\<rparr>\<rparr>, [CallLstat ''config.json''])
   \<and> fst (ProcessConfig missing_file sample_config) = sample_config"
  using ProcessConfig_failure
    [of malformed_file sample_config "''unexpected EOF''" "\<lparr>wall = 0, ext = 1, loc = None\<rparr>" "''{''"]
    ProcessConfig_failure
    [of unreadable_file sample_config "''permission denied''" "\<lparr>wall = 0, ext = 1, loc = None\<rparr>"]
    ProcessConfig_failure
    [of missing_file sample_config "''no such file or directory''"]
  by (simp add: malformed_file_def unreadable_file_def missing_file_def sample_config_def
      ProcessConfig_def)

section \<open>Properties of the job supervisor\<close>

subsection \<open>Admission\<close>

lemma less_threshold: "(w < 360 * KB * KB * KB) = (unat w < 360 * 1024 ^ 3)"
  by (simp add: word_less_nat_alt KB_def)

text \<open>
  C4. \<open>CheckSpace\<close> answers true exactly when the plot directory and the target
  directory both have at least 360 * 1024^3 bytes available. With 300 GiB on the plot
  directory, or on the target directory, it answers false; with 400 GiB on both, true.
\<close>

theorem CheckSpace_threshold:
  "fst (CheckSpace avail ap) =
     (360 * 1024 ^ 3 \<le> unat (avail (PlotDir ap)) \<and> 360 * 1024 ^ 3 \<le> unat (avail (TargetDir ap)))
   \<and> fst (CheckSpace (\<lambda>d. if d = PlotDir ap then 300 * KB * KB * KB else 400 * KB * KB * KB) ap) = False
   \<and> fst (CheckSpace (\<lambda>d. if d = TargetDir ap then 300 * KB * KB * KB else 400 * KB * KB * KB) ap) = False
   \<and> fst (CheckSpace (\<lambda>d. 400 * KB * KB * KB) ap) = True"
proof -
  have a: "fst (CheckSpace avail ap) =
     (360 * 1024 ^ 3 \<le> unat (avail (PlotDir ap)) \<and> 360 * 1024 ^ 3 \<le> unat (avail (TargetDir ap)))"
    by (auto simp: CheckSpace_def Let_def less_threshold)
  have b: "fst (CheckSpace (\<lambda>d. if d = PlotDir ap then 300 * KB * KB * KB else 400 * KB * KB * KB) ap) = False"
    by (simp add: CheckSpace_def Let_def KB_def)
  have c: "fst (CheckSpace (\<lambda>d. if d = TargetDir ap then 300 * KB * KB * KB else 400 * KB * KB * KB) ap) = False"
    by (simp add: CheckSpace_def Let_def KB_def)
  have d: "fst (CheckSpace (\<lambda>d. 400 * KB * KB * KB) ap) = True"
    by (simp add: CheckSpace_def Let_def KB_def)
  from a b c d show ?thesis by blast
qed

subsection \<open>Launch\<close>

lemma plot_cmd_StartTime: "plot_cmd (ap\<lparr>StartTime := t\<rparr>) = plot_cmd ap"
  by (simp add: plot_cmd_def plot_args_def)

lemma RunPlot_cmd: "fst (snd (RunPlot env ap)) = plot_cmd ap"
  by (simp add: RunPlot_def Let_def plot_cmd_StartTime split: sum.splits option.splits prod.splits)

text \<open>
  C1, as the claim states it, fails: for a job whose plot (working) directory is
  \<open>/tmp\<close> and whose target directory is \<open>/dst\<close>, the temporary-space and the
  destination-space arguments of the command both carry \<open>/dst\<close>, the target directory.
\<close>

theorem RunPlot_args_counterexample:
  "fst (snd (RunPlot clean_run sample_job))
     = (''chia'',
        [''plots'', ''create'', ''-k32'', ''-n1'', ''-b6000'', ''-u128'', ''-t/dst'', ''-d/dst'', ''-af''])
   \<and> PlotDir sample_job = ''/tmp''
   \<and> TargetDir sample_job = ''/dst''
   \<and> snd (fst (snd (RunPlot clean_run sample_job))) ! 6 \<noteq> ''-t'' @ PlotDir sample_job
   \<and> snd (fst (snd (RunPlot clean_run sample_job))) ! 7 \<noteq> ''-d'' @ PlotDir sample_job"
  by (simp add: RunPlot_cmd plot_cmd_def plot_args_def sample_job_def)

text \<open>
  C1, amended. The command \<open>RunPlot\<close> builds is \<open>chia\<close> with nine arguments: six fixed
  ones, then the temporary-space argument, then the destination-space argument \<open>-d\<close>
  followed by the job's target directory, then the key argument \<open>-a\<close> followed by the
  job's fingerprint.
\<close>

theorem RunPlot_args_destination_and_key:
  "fst (snd (RunPlot env ap)) = (''chia'', plot_args ap)
   \<and> length (plot_args ap) = 9
   \<and> take 6 (plot_args ap) = [''plots'', ''create'', ''-k32'', ''-n1'', ''-b6000'', ''-u128'']
   \<and> plot_args ap ! 7 = ''-d'' @ TargetDir ap
   \<and> plot_args ap ! 8 = ''-a'' @ Fingerprint ap"
  by (simp add: RunPlot_cmd plot_cmd_def plot_args_def)

text \<open>
  C5. Whatever the environment answers, \<open>RunPlot\<close> ends with \<open>EndTime\<close> set to the clock
  reading taken at exit. The state it leaves is \<open>PlotError\<close> when \<open>StderrPipe\<close>,
  \<open>StdoutPipe\<close> or \<open>Run\<close> returned an error (for \<open>Run\<close>: a start failure, a non-zero exit
  status or any other error), and \<open>PlotRunning\<close> otherwise; it is never \<open>PlotFinished\<close>.
\<close>

theorem RunPlot_end_time_and_state:
  "EndTime (fst (RunPlot env ap)) = NowAtExit env
   \<and> State (fst (RunPlot env ap)) =
       (if isl (StderrPipe env (plot_cmd ap)) \<or> isl (StdoutPipe env (plot_cmd ap))
           \<or> Run env (plot_cmd ap) \<noteq> None
        then PlotError else PlotRunning)
   \<and> State (fst (RunPlot env ap)) \<noteq> PlotFinished"
  by (auto simp: RunPlot_def Let_def plot_cmd_StartTime PlotError_def PlotRunning_def PlotFinished_def
      split: sum.splits option.splits)

subsection \<open>Log scraping\<close>

lemma processLogs_eof: "ReadString inp (CHR 0x0A) = None \<Longrightarrow> processLogs inp ap = Inr ap"
  by (simp add: processLogs.simps [of inp])

lemma processLogs_line:
  "ReadString inp (CHR 0x0A) = Some (s, rest) \<Longrightarrow>
   processLogs inp ap = (case scrapeLine s ap of Inl e \<Rightarrow> Inl e | Inr ap' \<Rightarrow> processLogs rest ap')"
  by (simp add: processLogs.simps [of inp])

lemma ReadLines_eof: "ReadString inp (CHR 0x0A) = None \<Longrightarrow> ReadLines inp = []"
  by (simp add: ReadLines.simps [of inp])

lemma ReadLines_line:
  "ReadString inp (CHR 0x0A) = Some (s, rest) \<Longrightarrow> ReadLines inp = s # ReadLines rest"
  by (simp add: ReadLines.simps [of inp])

text \<open>The loop of \<open>processLogs\<close> is the loop body run over the lines the stream yields.\<close>

lemma processLogs_ReadLines: "processLogs inp ap = scrapeLines (ReadLines inp) ap"
proof (induction inp ap rule: processLogs.induct)
  case (1 inp ap)
  show ?case
  proof (cases "ReadString inp (CHR 0x0A)")
    case None
    then show ?thesis by (simp add: processLogs_eof ReadLines_eof)
  next
    case (Some p)
    obtain s rest where p: "p = (s, rest)" by (cases p)
    have rs: "ReadString inp (CHR 0x0A) = Some (s, rest)"
      using Some p by simp
    show ?thesis
    proof (cases "scrapeLine s ap")
      case (Inl e)
      then show ?thesis by (simp add: processLogs_line [OF rs] ReadLines_line [OF rs])
    next
      case (Inr ap1)
      have ih: "processLogs rest ap1 = scrapeLines (ReadLines rest) ap1"
        using Some p Inr by (intro "1.IH" [of p s rest ap1]) simp_all
      show ?thesis
        by (simp add: processLogs_line [OF rs] ReadLines_line [OF rs] Inr ih)
    qed
  qed
qed

text \<open>Every line the loop processes ends with the newline that delimited it.\<close>

lemma ReadString_delimited: "ReadString inp d = Some (s, rest) \<Longrightarrow> s \<noteq> [] \<and> last s = d"
  by (induction inp arbitrary: s) (auto split: if_splits option.splits)

lemma ReadLines_newline: "s \<in> set (ReadLines inp) \<Longrightarrow> s \<noteq> [] \<and> last s = CHR 0x0A"
proof (induction inp rule: ReadLines.induct)
  case (1 inp)
  show ?case
  proof (cases "ReadString inp (CHR 0x0A)")
    case None
    with "1.prems" show ?thesis by (simp add: ReadLines_eof)
  next
    case (Some p)
    obtain l rest where p: "p = (l, rest)" by (cases p)
    have rs: "ReadString inp (CHR 0x0A) = Some (l, rest)"
      using Some p by simp
    from "1.prems" have "s = l \<or> s \<in> set (ReadLines rest)"
      by (simp add: ReadLines_line [OF rs])
    then show ?thesis
    proof
      assume "s = l"
      with ReadString_delimited [OF rs] show ?thesis by simp
    next
      assume "s \<in> set (ReadLines rest)"
      then show ?thesis using Some p by (intro "1.IH" [of p l rest]) simp_all
    qed
  qed
qed

text \<open>What the loop body stores for the two markers.\<close>

lemma scrapeLine_Id:
  "scrapeLine s ap = Inr ap' \<Longrightarrow> HasPrefix s ''ID: '' \<Longrightarrow> Id ap' = drop 4 s"
  by (auto simp: scrapeLine_def slice_def HasPrefix_def split: if_splits sum.splits)

lemma scrapeLine_Phase:
  "HasPrefix s ''Starting phase '' \<Longrightarrow>
   (length s < 18 \<longrightarrow> scrapeLine s ap = Inl SliceBoundsOutOfRange)
   \<and> (18 \<le> length s \<longrightarrow> (\<exists>ap'. scrapeLine s ap = Inr ap' \<and> Phase ap' = take 3 (drop 15 s)))"
  by (auto simp: scrapeLine_def slice_def HasPrefix_def split: if_splits sum.splits)

text \<open>
  C2. The stream \<open>ID: abc123\<close> followed by a newline is read as one line, newline
  included, and the identifier stored is \<open>abc123\<close> followed by that newline, which is
  not \<open>abc123\<close>. Without the newline the stream yields no line at all and the job is
  unchanged. The phase line stores the three characters \<open>2/6\<close>.
\<close>

theorem scrape_id_keeps_newline:
  "processLogs (''ID: abc123'' @ [CHR 0x0A]) ap
     = Inr (ap\<lparr>Id := ''abc123'' @ [CHR 0x0A],
               Tail := appendTail (''ID: abc123'' @ [CHR 0x0A]) (Tail ap)\<rparr>)
   \<and> ''abc123'' @ [CHR 0x0A] \<noteq> ''abc123''
   \<and> processLogs ''ID: abc123'' ap = Inr ap
   \<and> processLogs (''Starting phase 2/6'' @ [CHR 0x0A]) ap
     = Inr (ap\<lparr>Phase := ''2/6'',
               Tail := appendTail (''Starting phase 2/6'' @ [CHR 0x0A]) (Tail ap)\<rparr>)"
  by (simp add: processLogs_line processLogs_eof scrapeLine_def HasPrefix_def slice_def)

subsection \<open>The bounded tail\<close>

lemma appendTail_drop: "appendTail s t = drop (length (t @ [s]) - 10) (t @ [s])"
  by (simp add: appendTail_def Let_def)

lemma scrapeLine_Tail: "scrapeLine s ap = Inr ap' \<Longrightarrow> Tail ap' = appendTail s (Tail ap)"
  by (auto simp: scrapeLine_def split: if_splits sum.splits)

lemma scrapeLine_plain:
  "\<not> HasPrefix s ''Starting phase '' \<Longrightarrow> \<not> HasPrefix s ''ID: '' \<Longrightarrow>
   scrapeLine s ap = Inr (ap\<lparr>Tail := appendTail s (Tail ap)\<rparr>)"
  by (simp add: scrapeLine_def)

lemma drop_last_twice:
  "drop (length (drop (length xs - n) xs @ ys) - n) (drop (length xs - n) xs @ ys)
   = drop (length (xs @ ys) - n) (xs @ ys)"
proof (cases "n \<le> length xs")
  case True
  then show ?thesis by (simp add: drop_append add.commute)
next
  case False
  then show ?thesis by simp
qed

lemma scrapeLines_Tail:
  "scrapeLines ls ap = Inr ap' \<Longrightarrow> ls \<noteq> [] \<Longrightarrow>
   Tail ap' = drop (length (Tail ap @ ls) - 10) (Tail ap @ ls)"
proof (induction ls arbitrary: ap)
  case Nil
  then show ?case by simp
next
  case (Cons s ls)
  from Cons.prems(1) obtain ap1
    where s1: "scrapeLine s ap = Inr ap1" and r: "scrapeLines ls ap1 = Inr ap'"
    by (auto split: sum.splits)
  have t1: "Tail ap1 = drop (length (Tail ap @ [s]) - 10) (Tail ap @ [s])"
    using scrapeLine_Tail [OF s1] by (simp add: appendTail_drop)
  show ?case
  proof (cases "ls = []")
    case True
    with r t1 show ?thesis by simp
  next
    case False
    from Cons.IH [OF r False]
    have "Tail ap' = drop (length (Tail ap1 @ ls) - 10) (Tail ap1 @ ls)" .
    also have "\<dots> = drop (length ((Tail ap @ [s]) @ ls) - 10) ((Tail ap @ [s]) @ ls)"
      unfolding t1 by (rule drop_last_twice)
    finally show ?thesis by simp
  qed
qed

lemma scrapeLine_returns:
  "\<not> (HasPrefix s ''Starting phase '' \<and> length s < 18) \<Longrightarrow> \<exists>ap'. scrapeLine s ap = Inr ap'"
  by (auto simp: scrapeLine_def slice_def HasPrefix_def split: sum.splits)

text \<open>
  C3. The loop of \<open>processLogs\<close> is the loop body run over the lines of the stream. Let
  the loop body run over any sequence of lines \<open>ls\<close> without a panic. If the tail held
  at most ten entries before, or at least one line was appended, it holds at most ten
  entries afterwards; and when more than ten lines were appended the tail has exactly
  ten entries, the last ten lines of \<open>ls\<close> in their order.
\<close>

theorem tail_bounded_fifo:
  "processLogs inp ap = scrapeLines (ReadLines inp) ap
   \<and> (scrapeLines ls ap = Inr ap' \<longrightarrow>
        (length (Tail ap) \<le> 10 \<or> ls \<noteq> [] \<longrightarrow> length (Tail ap') \<le> 10)
        \<and> (10 < length ls \<longrightarrow> length (Tail ap') = 10 \<and> Tail ap' = drop (length ls - 10) ls))"
proof (cases "ls = []")
  case True
  then show ?thesis by (auto simp: processLogs_ReadLines)
next
  case False
  show ?thesis
  proof (intro conjI impI)
    show "processLogs inp ap = scrapeLines (ReadLines inp) ap"
      by (rule processLogs_ReadLines)
  next
    assume "scrapeLines ls ap = Inr ap'"
    from scrapeLines_Tail [OF this False] show "length (Tail ap') \<le> 10" by simp
  next
    assume "scrapeLines ls ap = Inr ap'" and "10 < length ls"
    with scrapeLines_Tail [OF _ False] show "length (Tail ap') = 10" by simp
  next
    assume "scrapeLines ls ap = Inr ap'" and "10 < length ls"
    with scrapeLines_Tail [OF _ False] show "Tail ap' = drop (length ls - 10) ls" by simp
  qed
qed

theorem tail_bounded_fifo_witness:
  "scrapeLines [''a'', ''b'', ''c'', ''d'', ''e'', ''f'', ''g'', ''h'', ''i'', ''j'', ''k''] sample_job
     = Inr (sample_job\<lparr>Tail := [''b'', ''c'', ''d'', ''e'', ''f'', ''g'', ''h'', ''i'', ''j'', ''k'']\<rparr>)
   \<and> length (Tail (sample_job\<lparr>Tail := [''b'', ''c'', ''d'', ''e'', ''f'', ''g'', ''h'', ''i'', ''j'', ''k'']\<rparr>)) = 10"
proof -
  have run: "scrapeLines [''a'', ''b'', ''c'', ''d'', ''e'', ''f'', ''g'', ''h'', ''i'', ''j'', ''k''] sample_job
     = Inr (sample_job\<lparr>Tail := [''b'', ''c'', ''d'', ''e'', ''f'', ''g'', ''h'', ''i'', ''j'', ''k'']\<rparr>)"
    by (simp add: scrapeLine_plain HasPrefix_def appendTail_def sample_job_def)
  from tail_bounded_fifo [of _ sample_job _ "sample_job\<lparr>Tail := [''b'', ''c'', ''d'', ''e'', ''f'', ''g'', ''h'', ''i'', ''j'', ''k'']\<rparr>"] run
  show ?thesis by simp
qed

section \<open>Properties of the sortable table\<close>

lemma and_then_simps [simp]:
  "and_then (Inl e) f = Inl e"
  "and_then (Inr x) f = f x"
  by (simp_all add: and_then_def)

subsection \<open>The comparator\<close>

text \<open>
  C7, as the claim states it, fails: two rows with data, one a struct of one field and
  the other a struct of two fields, compare false in the forward and in the reverse
  direction, so the direction does not invert the result.
\<close>

theorem less_direction_counterexample:
  "sortData_less 0 False (Some (StructPtr [Field True ''int'' (IntVal 1)] []))
       (Some (StructPtr [Field True ''int'' (IntVal 2), Field True ''int'' (IntVal 0)] [])) = Inr False
   \<and> sortData_less 0 True (Some (StructPtr [Field True ''int'' (IntVal 1)] []))
       (Some (StructPtr [Field True ''int'' (IntVal 2), Field True ''int'' (IntVal 0)] [])) = Inr False"
  by (simp add: sortData_less_def)

lemma compare_fields_reverse:
  "compare_fields reverse f1 f2 = Inr c \<Longrightarrow> compare_fields (\<not> reverse) f1 f2 = Inr (\<not> c)"
  by (auto simp: compare_fields_def split: field_value.splits sum.splits)

text \<open>
  C7, amended. In either direction a row with data is less than a row without, and a
  row without data is not less than a row with data. Two rows with data whose structs
  differ in their number of fields, or have fewer fields than the sort column's index,
  compare false in either direction. For two rows with data whose structs have the same
  number of fields, not fewer than the sort column's index, whenever the comparator
  gives a result in one direction it gives the negated result in the other.
\<close>

theorem less_missing_last_direction_inverts:
  "sortData_less col reverse (Some r) None = Inr True
   \<and> sortData_less col reverse None (Some r) = Inr False
   \<and> (length v1 \<noteq> length v2 \<or> int (length v1) < col \<longrightarrow>
        sortData_less col reverse (Some (StructPtr v1 s1)) (Some (StructPtr v2 s2)) = Inr False)
   \<and> (length v1 = length v2 \<and> col \<le> int (length v1)
        \<and> sortData_less col reverse (Some (StructPtr v1 s1)) (Some (StructPtr v2 s2)) = Inr c \<longrightarrow>
        sortData_less col (\<not> reverse) (Some (StructPtr v1 s1)) (Some (StructPtr v2 s2)) = Inr (\<not> c))"
  by (auto simp: sortData_less_def dest: compare_fields_reverse split: sum.splits)

theorem less_missing_last_direction_inverts_witness:
  "sortData_less 0 False (Some (int_row 1)) (Some (int_row 2)) = Inr True
   \<and> sortData_less 0 True (Some (int_row 1)) (Some (int_row 2)) = Inr False
   \<and> sortData_less 0 True (Some (int_row 1)) (Some (StructPtr [] [])) = Inr False"
proof -
  have a: "sortData_less 0 False (Some (int_row 1)) (Some (int_row 2)) = Inr True"
    by (simp add: sortData_less_def int_row_def index_def compare_fields_def Value_Int_def)
  from less_missing_last_direction_inverts
    [of 0 False "int_row 1" "[Field True ''int'' (IntVal 1)]" "[Field True ''int'' (IntVal 2)]" "[]" "[]" True]
    less_missing_last_direction_inverts
    [of 0 True "int_row 1" "[Field True ''int'' (IntVal 1)]" "[]" "[]" "[]" True]
    a
  show ?thesis by (simp add: int_row_def)
qed

subsection \<open>The sort\<close>

text \<open>On fewer than 20 entries \<open>SliceStable\<close> is one insertion sort of the whole slice.\<close>

lemma SliceStable_small:
  "length xs < 20 \<Longrightarrow> SliceStable lt xs = insertionSort_func lt 0 (length xs) xs"
  by (simp add: SliceStable_def stable_func_def stable_blocks.simps [of _ _ 0 20]
      merge_rounds.simps [of _ _ 0] split: sum.splits)

lemma row_less_int:
  "row_less 0 reverse \<lparr>key = k1, data = Some (int_row m)\<rparr> \<lparr>key = k2, data = Some (int_row n)\<rparr>
   = Inr ((sint (word_of_int m :: 64 word) < sint (word_of_int n :: 64 word)) \<noteq> reverse)"
  by (simp add: row_less_def sortData_less_def int_row_def index_def compare_fields_def Value_Int_def)

text \<open>
  C8. Two entries \<open>x\<close> and \<open>y\<close>, added in this order, both with the value 1 in the
  sort column. A click on the header of the sort column makes the direction reverse.
  Sorted in the reverse direction the entries come out as \<open>y\<close>, \<open>x\<close>, and a second
  \<open>Redraw\<close> turns them round again; sorted in the forward direction they keep their
  order.
\<close>

theorem sortData_reverse_swaps_equal_rows:
  "Keys two_equal_rows = [''x'', ''y'']
   \<and> sortReverse (setSortColumn 0 two_equal_rows) = True
   \<and> and_then (sortData (setSortColumn 0 two_equal_rows)) (\<lambda>st. Inr (Keys st)) = Inr [''y'', ''x'']
   \<and> and_then (Redraw (setSortColumn 0 two_equal_rows)) (\<lambda>st. Inr (Keys st)) = Inr [''y'', ''x'']
   \<and> and_then (Redraw (setSortColumn 0 two_equal_rows))
         (\<lambda>st. and_then (Redraw st) (\<lambda>st. Inr (Keys st))) = Inr [''x'', ''y'']
   \<and> and_then (sortData two_equal_rows) (\<lambda>st. Inr (Keys st)) = Inr [''x'', ''y'']"
  by (simp add: two_equal_rows_def SetRowData_def setSortColumn_def Keys_def NewSortedTable_def
      sortData_def SliceStable_small insertionSort_func_def insertionSort_outer.simps row_less_int
      Swap_def Redraw_def GetSelection_def updateData_def Select_def)

subsection \<open>Selection across Redraw\<close>

lemma three_rows_values:
  "three_rows = NewSortedTable\<lparr>rowValues :=
      [\<lparr>key = ''a'', data = Some (int_row 1)\<rparr>, \<lparr>key = ''b'', data = Some (int_row 2)\<rparr>,
       \<lparr>key = ''c'', data = Some (int_row 3)\<rparr>]\<rparr>"
  by (simp add: three_rows_def SetRowData_def NewSortedTable_def)

lemma Select_b:
  "Select ''b'' three_rows
   = Inr (three_rows\<lparr>table := \<lparr>selectedRow = 2, selectedColumn = 0\<rparr>, curRow := 2, curKey := ''b''\<rparr>)"
  by (simp add: three_rows_values Select_def table_Select_def selectionChanged_def
      selectionChanged_data_def index_def NewSortedTable_def Let_def)

text \<open>
  C9. On the table with the keys \<open>a\<close>, \<open>b\<close>, \<open>c\<close>: select \<open>b\<close>, remove \<open>b\<close>, redraw;
  the selection is then \<open>c\<close>, the key that moved into the second row, not the empty
  string. Selecting \<open>c\<close>, the last row, removing it and redrawing panics. Selecting
  \<open>b\<close>, removing \<open>a\<close> and redrawing also gives the selection \<open>c\<close>, although \<open>b\<close> is
  still there. With no removal, selecting \<open>b\<close> and redrawing leaves the selection \<open>b\<close>.
\<close>

theorem selection_after_removal:
  "and_then (Select ''b'' three_rows) (\<lambda>st. and_then (Redraw (ClearRowData ''b'' st)) GetSelection)
     = Inr ''c''
   \<and> and_then (Select ''b'' three_rows) (\<lambda>st. Inr (Keys (ClearRowData ''b'' st))) = Inr [''a'', ''c'']
   \<and> and_then (Select ''c'' three_rows) (\<lambda>st. Redraw (ClearRowData ''c'' st)) = Inl IndexOutOfRange
   \<and> and_then (Select ''b'' three_rows) (\<lambda>st. and_then (Redraw (ClearRowData ''a'' st)) GetSelection)
     = Inr ''c''
   \<and> and_then (Select ''b'' three_rows) (\<lambda>st. and_then (Redraw st) GetSelection) = Inr ''b''"
  by (simp add: Select_b GetSelection_def index_def three_rows_values Keys_def ClearRowData_def
      Redraw_def sortData_def SliceStable_small insertionSort_func_def insertionSort_outer.simps
      row_less_int Swap_def updateData_def Select_def table_Select_def selectionChanged_def
      selectionChanged_data_def NewSortedTable_def Let_def)

text \<open>
  C10. \<open>GetSelection\<close> indexes the entries at \<open>curRow - 1\<close> with no check against their
  number: whenever \<open>curRow\<close> exceeds the number of entries, \<open>GetSelection\<close> panics with an
  index out of range, and so does \<open>Redraw\<close>. Such a state is reached through the table's
  own operations. Adding one entry \<open>a\<close> to a new table and selecting it returns the
  state \<open>one_row_selected\<close>, in which \<open>curRow\<close> is 1, there is one entry and the
  selection is \<open>a\<close>. Removing the entry from that state, with \<open>Clear\<close> or with
  \<open>ClearRowData\<close>, leaves \<open>curRow\<close> at 1 and no entry, and there \<open>GetSelection\<close> and
  \<open>Redraw\<close> panic with an index out of range. The empty string is returned only while
  \<open>curRow\<close> is not positive, as in a new table.
\<close>

theorem GetSelection_unchecked_index:
  "(int (length (rowValues st)) < curRow st \<longrightarrow>
      GetSelection st = Inl IndexOutOfRange \<and> Redraw st = Inl IndexOutOfRange)
   \<and> Select ''a'' (SetRowData ''a'' d NewSortedTable) = Inr (one_row_selected d)
   \<and> curRow (one_row_selected d) = 1
   \<and> length (rowValues (one_row_selected d)) = 1
   \<and> GetSelection (one_row_selected d) = Inr ''a''
   \<and> curRow (Clear (one_row_selected d)) = 1
   \<and> length (rowValues (Clear (one_row_selected d))) = 0
   \<and> GetSelection (Clear (one_row_selected d)) = Inl IndexOutOfRange
   \<and> Redraw (Clear (one_row_selected d)) = Inl IndexOutOfRange
   \<and> curRow (ClearRowData ''a'' (one_row_selected d)) = 1
   \<and> length (rowValues (ClearRowData ''a'' (one_row_selected d))) = 0
   \<and> GetSelection (ClearRowData ''a'' (one_row_selected d)) = Inl IndexOutOfRange
   \<and> Redraw (ClearRowData ''a'' (one_row_selected d)) = Inl IndexOutOfRange
   \<and> GetSelection NewSortedTable = Inr []"
proof -
  have general: "int (length (rowValues st)) < curRow st \<longrightarrow>
      GetSelection st = Inl IndexOutOfRange \<and> Redraw st = Inl IndexOutOfRange"
    by (auto simp: GetSelection_def Redraw_def index_def)
  have select: "Select ''a'' (SetRowData ''a'' d NewSortedTable) = Inr (one_row_selected d)"
    by (simp add: SetRowData_def NewSortedTable_def Select_def table_Select_def
        selectionChanged_def selectionChanged_data_def index_def one_row_selected_def Let_def)
  have selected: "curRow (one_row_selected d) = 1"
    "length (rowValues (one_row_selected d)) = 1"
    "GetSelection (one_row_selected d) = Inr ''a''"
    by (simp_all add: one_row_selected_def NewSortedTable_def GetSelection_def index_def)
  have cleared: "curRow (Clear (one_row_selected d)) = 1"
    "length (rowValues (Clear (one_row_selected d))) = 0"
    "GetSelection (Clear (one_row_selected d)) = Inl IndexOutOfRange"
    "Redraw (Clear (one_row_selected d)) = Inl IndexOutOfRange"
    by (simp_all add: one_row_selected_def NewSortedTable_def Clear_def GetSelection_def
        Redraw_def index_def)
  have removed: "curRow (ClearRowData ''a'' (one_row_selected d)) = 1"
    "length (rowValues (ClearRowData ''a'' (one_row_selected d))) = 0"
    "GetSelection (ClearRowData ''a'' (one_row_selected d)) = Inl IndexOutOfRange"
    "Redraw (ClearRowData ''a'' (one_row_selected d)) = Inl IndexOutOfRange"
    by (simp_all add: one_row_selected_def NewSortedTable_def ClearRowData_def GetSelection_def
        Redraw_def index_def)
  have fresh: "GetSelection NewSortedTable = Inr []"
    by (simp add: GetSelection_def NewSortedTable_def)
  from general select selected cleared removed fresh show ?thesis by blast
qed

theorem GetSelection_unchecked_index_witness:
  "Select ''a'' (SetRowData ''a'' (Some (int_row 1)) NewSortedTable)
     = Inr (one_row_selected (Some (int_row 1)))
   \<and> int (length (rowValues (Clear (one_row_selected (Some (int_row 1))))))
       < curRow (Clear (one_row_selected (Some (int_row 1))))
   \<and> GetSelection (Clear (one_row_selected (Some (int_row 1)))) = Inl IndexOutOfRange
   \<and> Redraw (Clear (one_row_selected (Some (int_row 1)))) = Inl IndexOutOfRange"
proof -
  have bound: "int (length (rowValues (Clear (one_row_selected (Some (int_row 1))))))
       < curRow (Clear (one_row_selected (Some (int_row 1))))"
    by (simp add: one_row_selected_def NewSortedTable_def Clear_def)
  from GetSelection_unchecked_index
    [of "Clear (one_row_selected (Some (int_row 1)))" "Some (int_row 1)"] bound
  show ?thesis by simp
qed

end
